theory Spec2Isabelle
  imports Complex_Main
begin

section \<open>Strings and the identifier sanitizer (backend.py, sanitize\_column\_name)\<close>

text \<open>
  A Python \<open>str\<close> is modelled as a \<^typ>\<open>string\<close>; a \<^typ>\<open>char\<close> is one code
  point below 256 (Latin-1). On these code points \<open>str.lower\<close> maps \<open>A..Z\<close> and the
  Latin-1 capital letters (192..222 except the multiplication sign 215) to the code
  point 32 above, and leaves every other one as it is.
\<close>

definition dquote :: char where
  "dquote = CHR 0x22"

definition lower_char :: "char \<Rightarrow> char" where
  "lower_char c =
     (let n = (of_char c :: nat)
      in if (65 \<le> n \<and> n \<le> 90) \<or> (192 \<le> n \<and> n \<le> 222 \<and> n \<noteq> 215)
         then char_of (n + 32) else c)"

definition lower :: "string \<Rightarrow> string" where
  "lower s = map lower_char s"

text \<open>\<open>s.replace(' ', '_')\<close>: every space becomes an underscore.\<close>

definition replace_space :: "string \<Rightarrow> string" where
  "replace_space s = map (\<lambda>c. if c = CHR '' '' then CHR ''_'' else c) s"

text \<open>The character class \<open>[a-z0-9_]\<close> of the regular expression.\<close>

definition allowed :: "char \<Rightarrow> bool" where
  "allowed c =
     (let n = (of_char c :: nat)
      in (97 \<le> n \<and> n \<le> 122) \<or> (48 \<le> n \<and> n \<le> 57) \<or> n = 95)"

text \<open>\<open>re.sub(r'[^a-z0-9_]', '', s)\<close>: every character outside the class is deleted.\<close>

definition re_sub_disallowed :: "string \<Rightarrow> string" where
  "re_sub_disallowed s = filter allowed s"

text \<open>
  \<^verbatim>\<open>
  def sanitize_column_name(col_name):
      col_name = col_name.lower().replace(' ', '_')
      col_name = re.sub(r'[^a-z0-9_]', '', col_name)
      return f'"{col_name}"'
  \<close>
\<close>

definition sanitize_column_name :: "string \<Rightarrow> string" where
  "sanitize_column_name col_name =
     [dquote] @ re_sub_disallowed (replace_space (lower col_name)) @ [dquote]"

text \<open>\<open>s.strip('"')\<close>: all leading and all trailing double quotes are removed.\<close>

definition strip_dquote :: "string \<Rightarrow> string" where
  "strip_dquote s =
     rev (dropWhile (\<lambda>c. c = dquote) (rev (dropWhile (\<lambda>c. c = dquote) s)))"

section \<open>Columns: pandas Series and their dtypes\<close>

text \<open>
  A float is an exact rational or NaN: rounding and the infinities of IEEE doubles are
  outside this model, and so is the wrap-around of 64-bit integers (an \<open>int64\<close> is an
  \<^typ>\<open>int\<close>). A timestamp is a number of nanoseconds since the epoch.
\<close>

datatype float64 = Num rat | NaN

text \<open>The Python objects a column can hold, and the values the functions return.\<close>

datatype pyobj =
    PyInt int
  | PyFloat float64
  | PyBool bool
  | PyStr string
  | PyTime int
  | PyNaT
  | PyNone

datatype dtype = Int64 | Float64 | Bool | Datetime64 | Object

text \<open>
  A Series is typed by its dtype: a numeric or datetime column cannot hold a string,
  only an \<open>object\<close> column holds arbitrary Python objects. A missing value is NaN in a
  float column, NaT (here \<open>None\<close>) in a datetime column, and \<open>None\<close> or NaN in an
  object column; integer and boolean columns have none.
\<close>

datatype series =
    Int64S "int list"
  | Float64S "float64 list"
  | BoolS "bool list"
  | Datetime64S "int option list"
  | ObjectS "pyobj list"

fun dtype_of :: "series \<Rightarrow> dtype" where
  "dtype_of (Int64S _) = Int64"
| "dtype_of (Float64S _) = Float64"
| "dtype_of (BoolS _) = Bool"
| "dtype_of (Datetime64S _) = Datetime64"
| "dtype_of (ObjectS _) = Object"

text \<open>The elements of a column as Python objects (\<open>s.tolist()\<close>).\<close>

fun values_of :: "series \<Rightarrow> pyobj list" where
  "values_of (Int64S xs) = map PyInt xs"
| "values_of (Float64S xs) = map PyFloat xs"
| "values_of (BoolS xs) = map PyBool xs"
| "values_of (Datetime64S xs) = map (\<lambda>t. case t of None \<Rightarrow> PyNaT | Some n \<Rightarrow> PyTime n) xs"
| "values_of (ObjectS xs) = xs"

text \<open>
  \<open>pandas.api.types\<close>: \<open>is_numeric_dtype\<close> holds of the integer, float and boolean
  dtypes, \<open>is_integer_dtype\<close> of the integer dtypes only, \<open>is_datetime64_any_dtype\<close> of
  the datetime64 dtypes.
\<close>

definition is_numeric_dtype :: "series \<Rightarrow> bool" where
  "is_numeric_dtype s = (dtype_of s = Int64 \<or> dtype_of s = Float64 \<or> dtype_of s = Bool)"

definition is_integer_dtype :: "series \<Rightarrow> bool" where
  "is_integer_dtype s = (dtype_of s = Int64)"

definition is_datetime64_any_dtype :: "series \<Rightarrow> bool" where
  "is_datetime64_any_dtype s = (dtype_of s = Datetime64)"

text \<open>
  \<^verbatim>\<open>
  def infer_sql_type(col_series):
      if pd.api.types.is_numeric_dtype(col_series):
          if pd.api.types.is_integer_dtype(col_series):
              return "INTEGER"
          else:
              return "DECIMAL"
      elif pd.api.types.is_datetime64_any_dtype(col_series):
          return "TIMESTAMP"
      else:
          return "TEXT"
  \<close>
\<close>

definition infer_sql_type :: "series \<Rightarrow> string" where
  "infer_sql_type col_series =
     (if is_numeric_dtype col_series then
        (if is_integer_dtype col_series then ''INTEGER'' else ''DECIMAL'')
      else if is_datetime64_any_dtype col_series then ''TIMESTAMP''
      else ''TEXT'')"





section \<open>Number formatting: the format specification \<open>,.2f\<close>\<close>

text \<open>
  \<open>f"{x:,.2f}"\<close> rounds to two decimals (ties to even), prints a minus sign for a
  negative number (also when it rounds to zero), groups the digits of the integer part
  in threes with commas, and prints NaN as \<open>nan\<close>.
\<close>

definition digit_char :: "nat \<Rightarrow> char" where
  "digit_char d = ''0123456789'' ! d"

fun digits :: "nat \<Rightarrow> string" where
  "digits n = (if n < 10 then [digit_char n] else digits (n div 10) @ [digit_char (n mod 10)])"

declare digits.simps [simp del]

fun group3 :: "string \<Rightarrow> string" where
  "group3 (a # b # c # d # rest) = a # b # c # CHR '','' # group3 (d # rest)"
| "group3 s = s"

definition thousands :: "string \<Rightarrow> string" where
  "thousands s = rev (group3 (rev s))"

definition round_half_even :: "rat \<Rightarrow> int" where
  "round_half_even x =
     (let n = \<lfloor>x\<rfloor>; f = x - of_int n
      in if f < 1 / 2 then n else if 1 / 2 < f then n + 1
         else if even n then n else n + 1)"

definition format_2f :: "rat \<Rightarrow> string" where
  "format_2f x =
     (let c = nat (round_half_even (\<bar>x\<bar> * 100)); ip = c div 100; fp = c mod 100
      in (if x < 0 then ''-'' else '''') @ thousands (digits ip) @ ''.''
         @ [digit_char (fp div 10), digit_char (fp mod 10)])"

fun format_float :: "float64 \<Rightarrow> string" where
  "format_float (Num r) = format_2f r"
| "format_float NaN = ''nan''"

section \<open>DataFrames and the pandas operations the metrics use\<close>

text \<open>
  A DataFrame is its columns in order, each a name and a Series; the columns of one
  frame have the same length. \<open>df.shape[0]\<close> is the number of rows, \<open>df.empty\<close> holds
  when the frame has no column or no row, and \<open>pd.DataFrame()\<close> is the frame with no
  column.
\<close>

type_synonym dataframe = "(string \<times> series) list"

definition nrows :: "dataframe \<Rightarrow> nat" where
  "nrows df = (case df of [] \<Rightarrow> 0 | (_, s) # _ \<Rightarrow> length (values_of s))"

definition df_empty :: "dataframe \<Rightarrow> bool" where
  "df_empty df = (nrows df = 0)"

text \<open>
  The exceptions of the metrics functions. \<open>TypeError\<close> stands for whatever pandas or the
  number formatting raises on a column whose dtype does not support the operation (a sum
  of timestamps, the mean or the \<open>,.2f\<close> format of strings, \<open>.days\<close> of a difference
  that is not a Timedelta): the functions here assume a numeric \<open>purchase_amount\<close> and a
  datetime \<open>purchase_date\<close>. Object columns that hold numbers are outside the model.
\<close>

datatype error = KeyError string | ZeroDivisionError | TypeError

text \<open>\<open>df[name]\<close> raises KeyError when there is no such column.\<close>

definition getitem :: "dataframe \<Rightarrow> string \<Rightarrow> error + series" where
  "getitem df name = (case map_of df name of None \<Rightarrow> Inl (KeyError name) | Some s \<Rightarrow> Inr s)"

fun dropna :: "'a option list \<Rightarrow> 'a list" where
  "dropna [] = []"
| "dropna (None # xs) = dropna xs"
| "dropna (Some x # xs) = x # dropna xs"

text \<open>
  What \<open>nunique\<close> and \<open>groupby\<close> compare: the value of a cell, with Python's equality
  (\<open>1 == 1.0 == True\<close>); a missing value has none, and both operations drop it.
\<close>

datatype key = KNum rat | KStr string | KTime int

fun key_of :: "pyobj \<Rightarrow> key option" where
  "key_of (PyInt i) = Some (KNum (of_int i))"
| "key_of (PyFloat (Num r)) = Some (KNum r)"
| "key_of (PyFloat NaN) = None"
| "key_of (PyBool b) = Some (KNum (if b then 1 else 0))"
| "key_of (PyStr s) = Some (KStr s)"
| "key_of (PyTime t) = Some (KTime t)"
| "key_of PyNaT = None"
| "key_of PyNone = None"

definition keys :: "series \<Rightarrow> key option list" where
  "keys s = map key_of (values_of s)"

text \<open>\<open>s.nunique()\<close>: the number of distinct values, missing values not counted.\<close>

definition nunique :: "series \<Rightarrow> nat" where
  "nunique s = card (set (dropna (keys s)))"

text \<open>The numbers of a numeric column (\<open>None\<close> for NaN), and the timestamps of a datetime column.\<close>

fun numbers :: "series \<Rightarrow> error + rat option list" where
  "numbers (Int64S xs) = Inr (map (\<lambda>i. Some (of_int i)) xs)"
| "numbers (Float64S xs) = Inr (map (\<lambda>v. case v of Num r \<Rightarrow> Some r | NaN \<Rightarrow> None) xs)"
| "numbers (BoolS xs) = Inr (map (\<lambda>b. Some (if b then 1 else 0)) xs)"
| "numbers (Datetime64S xs) = Inl TypeError"
| "numbers (ObjectS xs) = Inl TypeError"

fun timestamps :: "series \<Rightarrow> error + int option list" where
  "timestamps (Datetime64S xs) = Inr xs"
| "timestamps _ = Inl TypeError"

text \<open>\<open>sum\<close>, \<open>mean\<close>, \<open>min\<close> and \<open>max\<close> skip missing values; of no value, the sum is 0 and the others are NaN (NaT).\<close>

definition series_sum :: "rat option list \<Rightarrow> rat" where
  "series_sum xs = sum_list (dropna xs)"

definition series_mean :: "rat option list \<Rightarrow> float64" where
  "series_mean xs =
     (case dropna xs of [] \<Rightarrow> NaN | y # ys \<Rightarrow> Num (sum_list (y # ys) / of_nat (length (y # ys))))"

definition series_min :: "rat option list \<Rightarrow> float64" where
  "series_min xs = (case dropna xs of [] \<Rightarrow> NaN | y # ys \<Rightarrow> Num (fold min ys y))"

definition series_max :: "rat option list \<Rightarrow> float64" where
  "series_max xs = (case dropna xs of [] \<Rightarrow> NaN | y # ys \<Rightarrow> Num (fold max ys y))"

definition time_min :: "int option list \<Rightarrow> int option" where
  "time_min ts = (case dropna ts of [] \<Rightarrow> None | y # ys \<Rightarrow> Some (fold min ys y))"

definition time_max :: "int option list \<Rightarrow> int option" where
  "time_max ts = (case dropna ts of [] \<Rightarrow> None | y # ys \<Rightarrow> Some (fold max ys y))"

text \<open>
  \<open>df.groupby(k)[x].mean()\<close>: one mean per distinct key that is not missing, over the
  rows of that key; \<open>.mean()\<close> of the result skips the groups whose mean is NaN.
\<close>

definition groupby_mean :: "key option list \<Rightarrow> rat option list \<Rightarrow> float64 list" where
  "groupby_mean ks xs =
     map (\<lambda>k. series_mean (map snd (filter (\<lambda>(k', x). k' = Some k) (zip ks xs))))
       (remdups (dropna ks))"

definition float_mean :: "float64 list \<Rightarrow> float64" where
  "float_mean vs = series_mean (map (\<lambda>v. case v of Num r \<Rightarrow> Some r | NaN \<Rightarrow> None) vs)"

fun fmul :: "float64 \<Rightarrow> float64 \<Rightarrow> float64" where
  "fmul (Num a) (Num b) = Num (a * b)"
| "fmul _ _ = NaN"

text \<open>\<open>pd.Timedelta(days=1)\<close> in nanoseconds.\<close>

definition day_ns :: int where
  "day_ns = 86400000000000"

section \<open>The metrics engine (backend.py, get\_key\_metrics and get\_business\_insights)\<close>

text \<open>
  \<open>(df['purchase_date'].max() - df['purchase_date'].min()).days\<close>: whole days, NaN
  when every date is NaT.
\<close>

definition customer_lifespan_days :: "int option list \<Rightarrow> int option" where
  "customer_lifespan_days dates =
     (case (time_max dates, time_min dates) of
        (Some mx, Some mn) \<Rightarrow> Some ((mx - mn) div day_ns)
      | _ \<Rightarrow> None)"

text \<open>
  \<^verbatim>\<open>
  latest_date = df['purchase_date'].max()
  churned_customers = df[df['purchase_date'] < (latest_date - pd.Timedelta(days=365))]
                        ['customer_id'].nunique()
  \<close>
  The rows dated before the cutoff are selected (a comparison with NaT is false), and
  the distinct customers of these rows are counted.
\<close>

definition churned_customers :: "key option list \<Rightarrow> int option list \<Rightarrow> nat" where
  "churned_customers ks dates =
     (case time_max dates of
        None \<Rightarrow> 0
      | Some latest_date \<Rightarrow>
          card (set (dropna (map fst
            (filter (\<lambda>(k, t). case t of None \<Rightarrow> False
                                | Some d \<Rightarrow> d < latest_date - 365 * day_ns)
               (zip ks dates))))))"

definition ltv_of :: "float64 \<Rightarrow> rat \<Rightarrow> int option \<Rightarrow> float64" where
  "ltv_of avg_purchase_value avg_purchases_per_customer lifespan =
     fmul (fmul avg_purchase_value (Num avg_purchases_per_customer))
       (case lifespan of None \<Rightarrow> NaN | Some d \<Rightarrow> Num (of_int d / 365))"

text \<open>
  \<^verbatim>\<open>
  def get_key_metrics(df):
      if df.empty:
          return {'LTV': 0, 'CAC': 0, 'Churn_Rate': 0}
      total_customers = df['customer_id'].nunique()
      total_revenue = df['purchase_amount'].sum()
      avg_purchase_value = df.groupby('customer_id')['purchase_amount'].mean().mean()
      customer_lifespan_days = (df['purchase_date'].max() - df['purchase_date'].min()).days
      avg_purchases_per_customer = df.shape[0] / total_customers
      ltv = (avg_purchase_value * avg_purchases_per_customer) * (customer_lifespan_days / 365)
      new_customers = df.groupby('customer_id')['purchase_date'].min().reset_index()
      cac = total_revenue / total_customers
      latest_date = df['purchase_date'].max()
      churned_customers = df[df['purchase_date'] < (latest_date - pd.Timedelta(days=365))]['customer_id'].nunique()
      churn_rate = (churned_customers / total_customers) * 100
      return {'LTV': f"{ltv:,.2f}", 'CAC': f"{cac:,.2f}", 'Churn_Rate': f"{churn_rate:,.2f}%"}
  \<close>
  The columns are read in the order of the source, so that the first missing one is the
  KeyError raised; \<open>df.shape[0] / total_customers\<close> divides two Python integers and
  raises ZeroDivisionError when no customer\_id is present. \<open>new_customers\<close> is not used.
  The returned dict is the list of its items in insertion order.
\<close>

definition get_key_metrics :: "dataframe \<Rightarrow> error + (string \<times> pyobj) list" where
  "get_key_metrics df =
     (if df_empty df then Inr [(''LTV'', PyInt 0), (''CAC'', PyInt 0), (''Churn_Rate'', PyInt 0)]
      else case getitem df ''customer_id'' of Inl e \<Rightarrow> Inl e | Inr cid \<Rightarrow>
        let total_customers = nunique cid in
        case getitem df ''purchase_amount'' of Inl e \<Rightarrow> Inl e | Inr amount_col \<Rightarrow>
        case numbers amount_col of Inl e \<Rightarrow> Inl e | Inr amount \<Rightarrow>
        let total_revenue = series_sum amount;
            avg_purchase_value = float_mean (groupby_mean (keys cid) amount) in
        case getitem df ''purchase_date'' of Inl e \<Rightarrow> Inl e | Inr date_col \<Rightarrow>
        case timestamps date_col of Inl e \<Rightarrow> Inl e | Inr dates \<Rightarrow>
        if total_customers = 0 then Inl ZeroDivisionError
        else
          let avg_purchases_per_customer = of_nat (nrows df) / of_nat total_customers;
              ltv = ltv_of avg_purchase_value avg_purchases_per_customer
                      (customer_lifespan_days dates);
              cac = total_revenue / of_nat total_customers;
              churn_rate =
                of_nat (churned_customers (keys cid) dates) / of_nat total_customers * 100
          in Inr [(''LTV'', PyStr (format_float ltv)),
                  (''CAC'', PyStr (format_2f cac)),
                  (''Churn_Rate'', PyStr (format_2f churn_rate @ ''%''))])"


text \<open>
  The churn count in the words of the specification: the distinct customers whose most
  recent purchase is more than 365 days before the latest purchase date of the dataset.
\<close>

definition spec_churned_customers :: "key option list \<Rightarrow> int option list \<Rightarrow> nat" where
  "spec_churned_customers ks dates =
     (case time_max dates of
        None \<Rightarrow> 0
      | Some latest_date \<Rightarrow>
          length (filter
            (\<lambda>k. case time_max (map snd (filter (\<lambda>(k', t). k' = Some k) (zip ks dates))) of
                   None \<Rightarrow> False
                 | Some most_recent \<Rightarrow> most_recent < latest_date - 365 * day_ns)
            (remdups (dropna ks))))"



subsection \<open>Example datasets\<close>

text \<open>One customer who bought on day 0 and again on day 400.\<close>

definition df_returning_customer :: dataframe where
  "df_returning_customer =
     [(''customer_id'', Int64S [1, 1]),
      (''purchase_date'', Datetime64S [Some 0, Some (400 * day_ns)]),
      (''purchase_amount'', Int64S [100, 200])]"






section \<open>The relational store and the connection (psycopg2, PostgreSQL)\<close>

text \<open>
  A stored table has its column definitions (name and SQL type) and its rows. The store
  maps table names to tables. A connection works on a transaction of its own: statements
  change \<open>txn\<close>, \<open>commit\<close> makes the changes the stored state, \<open>rollback\<close> discards
  them, and closing the connection discards what was not committed. Other sessions see
  \<open>committed\<close> only.
\<close>

record table =
  schema :: "(string \<times> string) list"
  contents :: "pyobj list list"

type_synonym tables = "string \<rightharpoonup> table"

record connection =
  committed :: tables
  txn :: tables

datatype db_error = ProgrammingError | DataError | NoResultSet

definition connect :: "tables \<Rightarrow> connection" where
  "connect db = \<lparr>committed = db, txn = db\<rparr>"

definition commit :: "connection \<Rightarrow> connection" where
  "commit c = c\<lparr>committed := txn c\<rparr>"

definition rollback :: "connection \<Rightarrow> connection" where
  "rollback c = c\<lparr>txn := committed c\<rparr>"

definition close :: "connection \<Rightarrow> tables" where
  "close c = committed c"

text \<open>
  What the code cannot decide is a parameter, the behaviour of the server: whether it
  accepts the connection; which unquoted table names its parser accepts; which rows
  \<open>COPY\<close> can convert to the column types of a table; what a query text given by the
  caller does to the connection and returns (the text is run as it is, so it may hold
  any statements, a \<open>COMMIT\<close> included); and how a table is read into a DataFrame.
\<close>

record server =
  accepts_connection :: bool
  valid_identifier :: "string \<Rightarrow> bool"
  accepts_row :: "(string \<times> string) list \<Rightarrow> pyobj list \<Rightarrow> bool"
  run_query :: "string \<Rightarrow> connection \<Rightarrow> (db_error + dataframe) \<times> connection"
  fetch_table :: "table \<Rightarrow> dataframe"

text \<open>\<open>DROP TABLE IF EXISTS name;\<close> A table that does not exist is not an error.\<close>

definition drop_table_if_exists ::
  "server \<Rightarrow> string \<Rightarrow> connection \<Rightarrow> db_error option \<times> connection" where
  "drop_table_if_exists sv name c =
     (if valid_identifier sv name then (None, c\<lparr>txn := (txn c)(name := None)\<rparr>)
      else (Some ProgrammingError, c))"

text \<open>
  \<open>CREATE TABLE name ("col" TYPE, ...);\<close> The column names arrive quoted; the server
  refuses a table that exists, a column named twice and the empty quoted identifier.
\<close>

definition create_table ::
  "server \<Rightarrow> string \<Rightarrow> (string \<times> string) list \<Rightarrow> connection \<Rightarrow> db_error option \<times> connection" where
  "create_table sv name cols c =
     (let defs = map (\<lambda>(col, ty). (strip_dquote col, ty)) cols
      in if valid_identifier sv name \<and> txn c name = None
            \<and> distinct (map fst defs) \<and> list_all (\<lambda>d. fst d \<noteq> []) defs
         then (None, c\<lparr>txn := (txn c)(name \<mapsto> \<lparr>schema = defs, contents = []\<rparr>)\<rparr>)
         else (Some ProgrammingError, c))"

text \<open>
  \<open>cursor.copy_from(buffer, name, sep='\t')\<close>: the rows are added in order; the first
  row the server cannot convert ends the load with an error, the rows before it being
  part of the open transaction only.
\<close>

definition copy_from ::
  "server \<Rightarrow> string \<Rightarrow> pyobj list list \<Rightarrow> connection \<Rightarrow> db_error option \<times> connection" where
  "copy_from sv name rows c =
     (case txn c name of
        None \<Rightarrow> (Some ProgrammingError, c)
      | Some t \<Rightarrow>
          let loaded = takeWhile (accepts_row sv (schema t)) rows;
              c' = c\<lparr>txn := (txn c)(name \<mapsto> t\<lparr>contents := contents t @ loaded\<rparr>)\<rparr>
          in if length loaded = length rows then (None, c') else (Some DataError, c'))"

text \<open>\<open>SELECT * FROM name;\<close> changes nothing and fails when there is no such table.\<close>

definition select_all ::
  "server \<Rightarrow> string \<Rightarrow> connection \<Rightarrow> (db_error + dataframe) \<times> connection" where
  "select_all sv name c =
     (if valid_identifier sv name then
        (case txn c name of
           None \<Rightarrow> (Inl ProgrammingError, c)
         | Some t \<Rightarrow> (Inr (fetch_table sv t), c))
      else (Inl ProgrammingError, c))"

section \<open>Ingestion and retrieval (backend.py, ingest\_csv\_data, get\_all\_data, get\_data\_by\_filters)\<close>

definition columns :: "dataframe \<Rightarrow> string list" where
  "columns df = map fst df"

text \<open>\<open>df.columns = names\<close>: the columns are renamed in place, their data stays.\<close>

definition set_columns :: "dataframe \<Rightarrow> string list \<Rightarrow> dataframe" where
  "set_columns df names = zip names (map snd df)"

text \<open>The rows that \<open>df.to_csv(buffer, index=False, header=False, sep='\t')\<close> writes.\<close>

definition rows_of :: "dataframe \<Rightarrow> pyobj list list" where
  "rows_of df = transpose (map (\<lambda>(name, s). values_of s) df)"

text \<open>
  \<^verbatim>\<open>
  def ingest_csv_data(df, table_name="customer_data"):
      conn = get_db_connection()
      if conn is None: return False
      try:
          cursor = conn.cursor()
          sanitized_table_name = sanitize_column_name(table_name).strip('"')
          cursor.execute(f"DROP TABLE IF EXISTS {sanitized_table_name};")
          conn.commit()
          schema_sql = []
          df.columns = [sanitize_column_name(col) for col in df.columns]
          for col, dtype in zip(df.columns, df.dtypes):
              sql_type = infer_sql_type(df[col])
              schema_sql.append(f"{col} {sql_type}")
          create_table_query = f"CREATE TABLE {sanitized_table_name} ({', '.join(schema_sql)});"
          cursor.execute(create_table_query)
          conn.commit()
          buffer = StringIO()
          df.columns = [col.strip('"') for col in df.columns]
          df.to_csv(buffer, index=False, header=False, sep='\t')
          buffer.seek(0)
          cursor.copy_from(buffer, sanitized_table_name, sep='\t')
          conn.commit()
          return True
      except Exception as e:
          conn.rollback()
          return False
      finally:
          if conn: cursor.close(); conn.close()
  \<close>
  The function returns its boolean; the model returns with it the caller's DataFrame as
  the call leaves it (the object is changed in place) and the stored tables after the
  connection is closed. Each column definition pairs the quoted name with the type
  inferred for that column. (When two headers sanitize to the same name, \<open>df[col]\<close> is
  not a single column; the statement is refused for the duplicate whatever the types.)
\<close>

definition schema_sql_of :: "dataframe \<Rightarrow> (string \<times> string) list" where
  "schema_sql_of df = map (\<lambda>(col, s). (col, infer_sql_type s)) df"

definition ingest_csv_data ::
  "server \<Rightarrow> dataframe \<Rightarrow> string \<Rightarrow> tables \<Rightarrow> bool \<times> dataframe \<times> tables" where
  "ingest_csv_data sv df table_name db =
     (if \<not> accepts_connection sv then (False, df, db)
      else
        let conn = connect db;
            sanitized_table_name = strip_dquote (sanitize_column_name table_name)
        in case drop_table_if_exists sv sanitized_table_name conn of
             (Some e, conn) \<Rightarrow> (False, df, close (rollback conn))
           | (None, conn) \<Rightarrow>
               let conn = commit conn;
                   df = set_columns df (map sanitize_column_name (columns df));
                   schema_sql = schema_sql_of df
               in case create_table sv sanitized_table_name schema_sql conn of
                    (Some e, conn) \<Rightarrow> (False, df, close (rollback conn))
                  | (None, conn) \<Rightarrow>
                      let conn = commit conn;
                          df = set_columns df (map strip_dquote (columns df))
                      in case copy_from sv sanitized_table_name (rows_of df) conn of
                           (Some e, conn) \<Rightarrow> (False, df, close (rollback conn))
                         | (None, conn) \<Rightarrow> (True, df, close (commit conn)))"

text \<open>
  \<^verbatim>\<open>
  def get_all_data(table_name="customer_data"):
      conn = get_db_connection()
      if conn is None: return pd.DataFrame()
      try:
          sanitized_table_name = sanitize_column_name(table_name).strip('"')
          query = f"SELECT * FROM {sanitized_table_name};"
          df = pd.read_sql(query, conn)
          return df
      except Exception as e:
          return pd.DataFrame()
      finally:
          if conn: conn.close()

  def get_data_by_filters(query):
      conn = get_db_connection()
      if conn is None: return pd.DataFrame()
      try:
          df = pd.read_sql(query, conn)
          return df
      except Exception as e:
          return pd.DataFrame()
      finally:
          if conn: conn.close()
  \<close>
  Both return the DataFrame; the model returns with it the stored tables after the call.
\<close>

definition get_all_data :: "server \<Rightarrow> string \<Rightarrow> tables \<Rightarrow> dataframe \<times> tables" where
  "get_all_data sv table_name db =
     (if \<not> accepts_connection sv then ([], db)
      else
        let conn = connect db;
            sanitized_table_name = strip_dquote (sanitize_column_name table_name)
        in case select_all sv sanitized_table_name conn of
             (Inl e, conn) \<Rightarrow> ([], close conn)
           | (Inr df, conn) \<Rightarrow> (df, close conn))"

definition get_data_by_filters :: "server \<Rightarrow> string \<Rightarrow> tables \<Rightarrow> dataframe \<times> tables" where
  "get_data_by_filters sv query db =
     (if \<not> accepts_connection sv then ([], db)
      else
        let conn = connect db
        in case run_query sv query conn of
             (Inl e, conn) \<Rightarrow> ([], close conn)
           | (Inr df, conn) \<Rightarrow> (df, close conn))"

text \<open>
  The dataset with every column renamed by \<open>f\<close>, the column definitions the stored table
  gets, and the condition under which the server accepts these definitions.
\<close>

definition rename_columns :: "(string \<Rightarrow> string) \<Rightarrow> dataframe \<Rightarrow> dataframe" where
  "rename_columns f df = map (\<lambda>(col, s). (f col, s)) df"

definition sanitized_name :: "string \<Rightarrow> string" where
  "sanitized_name col = strip_dquote (sanitize_column_name col)"

definition column_definitions :: "dataframe \<Rightarrow> (string \<times> string) list" where
  "column_definitions df = map (\<lambda>(col, s). (sanitized_name col, infer_sql_type s)) df"

definition creatable :: "dataframe \<Rightarrow> bool" where
  "creatable df =
     (distinct (map sanitized_name (columns df))
      \<and> list_all (\<lambda>col. sanitized_name col \<noteq> []) (columns df))"

subsection \<open>An example server, store and upload\<close>

text \<open>
  A server that accepts every non-empty table name, cannot load a row with a missing
  number (\<open>to_csv\<close> writes it as an empty field), and knows one query text, which drops
  the table \<open>customer_data\<close> and commits; every other text is an error.
\<close>

definition example_server :: server where
  "example_server =
     \<lparr>accepts_connection = True,
      valid_identifier = (\<lambda>name. name \<noteq> []),
      accepts_row = (\<lambda>cols row. PyFloat NaN \<notin> set row),
      run_query = (\<lambda>q c.
        if q = ''DROP TABLE customer_data; COMMIT;''
        then (Inl NoResultSet,
              \<lparr>committed = (txn c)(''customer_data'' := None),
               txn = (txn c)(''customer_data'' := None)\<rparr>)
        else (Inl ProgrammingError, c)),
      fetch_table = (\<lambda>t. zip (map fst (schema t)) (map ObjectS (transpose (contents t))))\<rparr>"

definition refusing_server :: server where
  "refusing_server = example_server\<lparr>accepts_connection := False\<rparr>"

definition old_store :: tables where
  "old_store =
     [''customer_data'' \<mapsto> \<lparr>schema = [(''customer_id'', ''INTEGER'')], contents = [[PyInt 7]]\<rparr>]"

definition df_upload :: dataframe where
  "df_upload =
     [(''Customer ID'', Int64S [1, 2]),
      (''Purchase Amount'', Float64S [Num 10, NaN])]"

section \<open>Properties of the sanitizer\<close>

lemma allowed_not_dquote: "allowed c \<Longrightarrow> c \<noteq> dquote"
  by (auto simp: allowed_def dquote_def)

lemma allowed_lower_char: "allowed c \<Longrightarrow> lower_char c = c"
  by (auto simp: allowed_def lower_char_def Let_def)

lemma allowed_not_space: "allowed c \<Longrightarrow> c \<noteq> CHR '' ''"
  by (auto simp: allowed_def)

lemma dropWhile_no_dquote:
  "\<forall>c \<in> set t. c \<noteq> dquote \<Longrightarrow> dropWhile (\<lambda>c. c = dquote) t = t"
  by (cases t) auto

lemma strip_dquote_wrapped:
  assumes "\<forall>c \<in> set s. c \<noteq> dquote"
  shows "strip_dquote ([dquote] @ s @ [dquote]) = s"
proof (cases s)
  case Nil
  then show ?thesis by (simp add: strip_dquote_def)
next
  case (Cons x xs)
  have b: "\<forall>c \<in> set (rev s). c \<noteq> dquote" using assms by simp
  have "x \<noteq> dquote" using assms Cons by simp
  then have "dropWhile (\<lambda>c. c = dquote) ([dquote] @ s @ [dquote]) = s @ [dquote]"
    using Cons by simp
  then have "strip_dquote ([dquote] @ s @ [dquote])
        = rev (dropWhile (\<lambda>c. c = dquote) (dquote # rev s))"
    by (simp add: strip_dquote_def)
  also have "\<dots> = rev (dropWhile (\<lambda>c. c = dquote) (rev s))"
    by simp
  also have "\<dots> = rev (rev s)"
    using dropWhile_no_dquote [OF b] by simp
  finally show ?thesis by simp
qed

lemma strip_sanitize:
  "strip_dquote (sanitize_column_name x) = re_sub_disallowed (replace_space (lower x))"
  unfolding sanitize_column_name_def
  by (rule strip_dquote_wrapped) (auto simp: re_sub_disallowed_def dest: allowed_not_dquote)

lemma sanitize_core_id:
  assumes "\<forall>c \<in> set x. allowed c"
  shows "re_sub_disallowed (replace_space (lower x)) = x"
proof -
  have "map lower_char x = x"
    by (rule map_idI) (simp add: assms allowed_lower_char)
  then have "lower x = x"
    by (simp add: lower_def)
  moreover have "map (\<lambda>c. if c = CHR '' '' then CHR ''_'' else c) x = x"
    by (rule map_idI) (use assms allowed_not_space in auto)
  then have "replace_space x = x"
    by (simp add: replace_space_def)
  moreover have "re_sub_disallowed x = x"
    using assms by (simp add: re_sub_disallowed_def)
  ultimately show ?thesis by simp
qed

text \<open>
  C2 (as amended). The string returned by \<open>sanitize_column_name\<close> is wrapped in double
  quotes: it is a double quote, then characters of \<open>[a-z0-9_]\<close> only, then a double
  quote. What lies between the quotes (what \<open>.strip('"')\<close> gives, as the callers take
  it) contains only characters of \<open>[a-z0-9_]\<close>, and for an input that consists of such
  characters only it is the input itself, so the function returns the input in quotes.
\<close>

theorem sanitize_column_name_quoted:
  "sanitize_column_name x = [dquote] @ strip_dquote (sanitize_column_name x) @ [dquote]
   \<and> (\<forall>c \<in> set (strip_dquote (sanitize_column_name x)). allowed c)
   \<and> ((\<forall>c \<in> set x. allowed c) \<longrightarrow>
        strip_dquote (sanitize_column_name x) = x
        \<and> sanitize_column_name x = [dquote] @ x @ [dquote])"
proof (intro conjI impI)
  show "sanitize_column_name x = [dquote] @ strip_dquote (sanitize_column_name x) @ [dquote]"
    by (simp add: strip_sanitize) (simp add: sanitize_column_name_def)
  show "\<forall>c \<in> set (strip_dquote (sanitize_column_name x)). allowed c"
    by (simp add: strip_sanitize re_sub_disallowed_def)
next
  assume a: "\<forall>c \<in> set x. allowed c"
  show "strip_dquote (sanitize_column_name x) = x"
    by (simp add: strip_sanitize sanitize_core_id [OF a])
  show "sanitize_column_name x = [dquote] @ x @ [dquote]"
    by (simp add: sanitize_column_name_def sanitize_core_id [OF a])
qed

theorem sanitize_column_name_quoted_witness:
  "strip_dquote (sanitize_column_name ''customer_id'') = ''customer_id''
   \<and> sanitize_column_name ''customer_id'' = [dquote] @ ''customer_id'' @ [dquote]"
proof -
  have a: "\<forall>c \<in> set ''customer_id''. allowed c"
    by (simp add: allowed_def)
  from sanitize_column_name_quoted [of "''customer_id''", THEN conjunct2, THEN conjunct2] a
  show ?thesis by (rule mp)
qed

text \<open>
  C2 as stated fails at the valid name \<open>abc\<close>: the returned string holds the double
  quote, which is outside \<open>[a-z0-9_]\<close>, and it is not the input.
\<close>

theorem sanitize_column_name_counterexample:
  "\<not> (\<forall>c \<in> set (sanitize_column_name ''abc''). allowed c)
   \<and> sanitize_column_name ''abc'' \<noteq> ''abc''"
proof
  have q: "dquote \<in> set (sanitize_column_name ''abc'')"
    by (simp add: sanitize_column_name_def)
  have nq: "\<not> allowed dquote"
    by (simp add: allowed_def dquote_def)
  show "\<not> (\<forall>c \<in> set (sanitize_column_name ''abc''). allowed c)"
  proof
    assume h: "\<forall>c \<in> set (sanitize_column_name ''abc''). allowed c"
    from nq bspec [OF h q] show False by (rule notE)
  qed
  show "sanitize_column_name ''abc'' \<noteq> ''abc''"
    by (simp add: sanitize_column_name_def dquote_def)
qed

section \<open>Properties of the type inferencer\<close>





section \<open>Properties of the number formatting\<close>

lemma round_half_even_down:
  assumes "of_int n \<le> x" and "x < of_int n + 1 / 2"
  shows "round_half_even x = n"
proof -
  have "\<lfloor>x\<rfloor> = n" using assms by (intro floor_unique) auto
  then show ?thesis using assms by (simp add: round_half_even_def Let_def)
qed

lemma round_half_even_up:
  assumes "of_int n + 1 / 2 < x" and "x < of_int n + 1"
  shows "round_half_even x = n + 1"
proof -
  have "\<lfloor>x\<rfloor> = n" using assms by (intro floor_unique) auto
  then show ?thesis using assms by (simp add: round_half_even_def Let_def)
qed

lemma format_2f_nonneg:
  assumes "0 \<le> x" and "round_half_even (x * 100) = int c"
  shows "format_2f x = thousands (digits (c div 100)) @ ''.''
           @ [digit_char (c mod 100 div 10), digit_char (c mod 100 mod 10)]"
  using assms by (simp add: format_2f_def Let_def)

lemmas digits_eval = digits.simps digit_char_def thousands_def

lemma format_2f_0: "format_2f 0 = ''0.00''"
proof -
  have "round_half_even (0 * 100) = int 0"
    by (simp add: round_half_even_down [where n = 0])
  from format_2f_nonneg [OF _ this] show ?thesis by (simp add: digits_eval)
qed

lemma format_2f_300: "format_2f 300 = ''300.00''"
proof -
  have "round_half_even (300 * 100) = int 30000"
    by (simp add: round_half_even_down [where n = 30000])
  from format_2f_nonneg [OF _ this] show ?thesis by (simp add: digits_eval)
qed

lemma format_2f_100: "format_2f 100 = ''100.00''"
proof -
  have "round_half_even (100 * 100) = int 10000"
    by (simp add: round_half_even_down [where n = 10000])
  from format_2f_nonneg [OF _ this] show ?thesis by (simp add: digits_eval)
qed

lemma format_2f_ltv: "format_2f (24000 / 73) = ''328.77''"
proof -
  have "round_half_even (24000 / 73 * 100) = int 32877"
    using round_half_even_up [where n = 32876 and x = "24000 / 73 * 100"] by simp
  from format_2f_nonneg [OF _ this] show ?thesis by (simp add: digits_eval)
qed

section \<open>Properties of the metrics engine\<close>

lemmas metrics_eval = df_empty_def nrows_def getitem_def
  nunique_def keys_def series_sum_def series_mean_def series_min_def series_max_def
  time_min_def time_max_def groupby_mean_def float_mean_def day_ns_def
  customer_lifespan_days_def churned_customers_def ltv_of_def


lemma timestamps_Inr_iff: "(\<exists>ts. timestamps s = Inr ts) \<longleftrightarrow> is_datetime64_any_dtype s"
  by (cases s) (simp_all add: is_datetime64_any_dtype_def)






text \<open>
  C4 (as amended). On an empty dataset (no column or no row) \<open>get_key_metrics\<close> raises
  nothing and returns the integer 0 for each of LTV, CAC and Churn\_Rate: the three
  values are plain integers, not strings formatted to two decimals, and Churn\_Rate has
  no percent sign.
\<close>

theorem get_key_metrics_empty:
  "df_empty df \<Longrightarrow>
   get_key_metrics df = Inr [(''LTV'', PyInt 0), (''CAC'', PyInt 0), (''Churn_Rate'', PyInt 0)]"
  by (simp add: get_key_metrics_def)

theorem get_key_metrics_empty_witness:
  "df_empty []
   \<and> get_key_metrics [] = Inr [(''LTV'', PyInt 0), (''CAC'', PyInt 0), (''Churn_Rate'', PyInt 0)]"
proof -
  have e: "df_empty []" by (simp add: df_empty_def nrows_def)
  from e get_key_metrics_empty [OF e] show ?thesis by (rule conjI)
qed

text \<open>
  C4 as stated fails at the empty DataFrame: the result is not the dict of the strings
  \<open>0.00\<close>, \<open>0.00\<close> and \<open>0.00%\<close> that the formatting of zero gives.
\<close>

theorem get_key_metrics_empty_counterexample:
  "df_empty []
   \<and> format_2f 0 = ''0.00''
   \<and> get_key_metrics [] \<noteq>
       Inr [(''LTV'', PyStr (format_2f 0)), (''CAC'', PyStr (format_2f 0)),
            (''Churn_Rate'', PyStr (format_2f 0 @ ''%''))]"
  by (simp add: get_key_metrics_def df_empty_def nrows_def format_2f_0)
















text \<open>
  C1 (the code differs). For one customer who bought on day 0 and again on day 400, the
  latest date is day 400 and the cutoff day 35: the row of day 0 lies before the cutoff,
  so the code counts the customer as churned and reports a churn rate of 100 percent,
  although the most recent purchase of that customer is the latest date itself and the
  count of the specification is 0.
\<close>

theorem churn_rate_counts_returning_customer:
  "get_key_metrics df_returning_customer =
     Inr [(''LTV'', PyStr ''328.77''), (''CAC'', PyStr ''300.00''),
          (''Churn_Rate'', PyStr ''100.00%'')]
   \<and> churned_customers (keys (Int64S [1, 1])) [Some 0, Some (400 * day_ns)] = 1
   \<and> spec_churned_customers (keys (Int64S [1, 1])) [Some 0, Some (400 * day_ns)] = 0"
  by (simp add: df_returning_customer_def get_key_metrics_def spec_churned_customers_def
      metrics_eval format_2f_ltv format_2f_300 format_2f_100)

section \<open>Properties of ingestion and retrieval\<close>

lemma set_columns_map: "set_columns df (map f (columns df)) = rename_columns f df"
  by (induction df) (auto simp: set_columns_def columns_def rename_columns_def)

lemma columns_rename: "columns (rename_columns f df) = map f (columns df)"
  by (simp add: columns_def rename_columns_def case_prod_unfold)

lemma rename_rename: "rename_columns g (rename_columns f df) = rename_columns (g \<circ> f) df"
  by (simp add: rename_columns_def case_prod_unfold)

lemma rows_of_rename: "rows_of (rename_columns f df) = rows_of df"
  by (simp add: rows_of_def rename_columns_def case_prod_unfold comp_def)

lemma schema_sql_of_rename:
  "map (\<lambda>(col, ty). (strip_dquote col, ty)) (schema_sql_of (rename_columns sanitize_column_name df))
     = column_definitions df"
  by (simp add: schema_sql_of_def rename_columns_def column_definitions_def sanitized_name_def
      case_prod_unfold)

lemma fst_column_definitions: "map fst (column_definitions df) = map sanitized_name (columns df)"
  by (simp add: column_definitions_def columns_def case_prod_unfold)

lemma column_definitions_nonempty:
  "list_all (\<lambda>d. fst d \<noteq> []) (column_definitions df)
     = list_all (\<lambda>col. sanitized_name col \<noteq> []) (columns df)"
  by (simp add: column_definitions_def columns_def list_all_iff case_prod_unfold)

lemma strip_sanitize_comp: "strip_dquote \<circ> sanitize_column_name = sanitized_name"
  by (simp add: fun_eq_iff sanitized_name_def)

lemma length_takeWhile_eq: "(length (takeWhile P xs) = length xs) = list_all P xs"
  by (induction xs) auto

lemma drop_step:
  "valid_identifier sv name \<Longrightarrow>
   drop_table_if_exists sv name (connect db)
     = (None, \<lparr>committed = db, txn = db(name := None)\<rparr>)"
  by (simp add: drop_table_if_exists_def connect_def)

lemma drop_step_invalid:
  "\<not> valid_identifier sv name \<Longrightarrow>
   drop_table_if_exists sv name (connect db) = (Some ProgrammingError, connect db)"
  by (simp add: drop_table_if_exists_def)

lemma create_step:
  assumes "valid_identifier sv name" and "creatable df"
  shows "create_table sv name (schema_sql_of (rename_columns sanitize_column_name df))
           (commit \<lparr>committed = db, txn = db(name := None)\<rparr>)
     = (None, \<lparr>committed = db(name := None),
               txn = db(name \<mapsto> \<lparr>schema = column_definitions df, contents = []\<rparr>)\<rparr>)"
  using assms
  by (simp add: create_table_def commit_def schema_sql_of_rename fst_column_definitions
      column_definitions_nonempty creatable_def)

lemma create_step_refused:
  assumes "valid_identifier sv name" and "\<not> creatable df"
  shows "create_table sv name (schema_sql_of (rename_columns sanitize_column_name df))
           (commit \<lparr>committed = db, txn = db(name := None)\<rparr>)
     = (Some ProgrammingError, \<lparr>committed = db(name := None), txn = db(name := None)\<rparr>)"
  using assms
  by (auto simp add: create_table_def commit_def schema_sql_of_rename fst_column_definitions
      column_definitions_nonempty creatable_def)

lemma copy_step:
  "copy_from sv name rows
     (commit \<lparr>committed = d, txn = d(name \<mapsto> \<lparr>schema = defs, contents = []\<rparr>)\<rparr>)
   = (if list_all (accepts_row sv defs) rows then None else Some DataError,
      \<lparr>committed = d(name \<mapsto> \<lparr>schema = defs, contents = []\<rparr>),
       txn = d(name \<mapsto> \<lparr>schema = defs, contents = takeWhile (accepts_row sv defs) rows\<rparr>)\<rparr>)"
  by (simp add: copy_from_def commit_def Let_def length_takeWhile_eq)

end
